theory Spec2Isabelle
  imports Main
begin

section \<open>Python values used by the services\<close>

text \<open>
  The subscription services raise two kinds of exception: the \<open>HTTPException\<close> of the
  web framework (status code, detail, headers) and the \<open>KeyError\<close> of a dictionary
  subscript \<open>d[k]\<close> on a missing key. Both are values of the type \<open>error\<close>; a function
  that can raise returns \<open>error + 'a\<close>.
\<close>

datatype error = KeyError | HTTPException nat string "(string \<times> string) list"

text \<open>
  A dictionary literal is an association list in the order of the source (iteration
  order matters for \<open>TIER_FEATURES\<close>). \<open>dict_get d k v\<close> is \<open>d.get(k, v)\<close>,
  \<open>dict_in k d\<close> is \<open>k in d\<close> and \<open>dict_subscript d k\<close> is \<open>d[k]\<close>.
\<close>

definition dict_get :: "('k \<times> 'v) list \<Rightarrow> 'k \<Rightarrow> 'v \<Rightarrow> 'v" where
  "dict_get d k v = (case map_of d k of None \<Rightarrow> v | Some x \<Rightarrow> x)"

definition dict_in :: "'k \<Rightarrow> ('k \<times> 'v) list \<Rightarrow> bool" where
  "dict_in k d = (case map_of d k of None \<Rightarrow> False | Some x \<Rightarrow> True)"

definition dict_subscript :: "('k \<times> 'v) list \<Rightarrow> 'k \<Rightarrow> error + 'v" where
  "dict_subscript d k = (case map_of d k of None \<Rightarrow> Inl KeyError | Some x \<Rightarrow> Inr x)"

definition try_bind :: "error + 'a \<Rightarrow> ('a \<Rightarrow> error + 'b) \<Rightarrow> error + 'b" where
  "try_bind m k = (case m of Inl e \<Rightarrow> Inl e | Inr x \<Rightarrow> k x)"

section \<open>The tier catalog (subscription\_service.py)\<close>

definition TIER_LIMITS :: "(string \<times> (string \<times> int) list) list" where
  "TIER_LIMITS =
    [(''free'',
       [(''ask_questions'', 10),
        (''journal_entries'', 5),
        (''quest_daily'', 1),
        (''forum_threads'', 3),
        (''forum_comments'', 10),
        (''forum_votes'', 20),
        (''insight_expansion'', 0),
        (''save_to_journal'', 5),
        (''concept_tagging'', 3),
        (''media_attachments'', 2)]),
     (''premium'',
       [(''ask_questions'', 50),
        (''journal_entries'', 100000),
        (''quest_daily'', 3),
        (''forum_threads'', 10),
        (''forum_comments'', 30),
        (''forum_votes'', 50),
        (''insight_expansion'', 5),
        (''save_to_journal'', 25),
        (''concept_tagging'', 10),
        (''media_attachments'', 5)]),
     (''pro'',
       [(''ask_questions'', 100000),
        (''journal_entries'', 100000),
        (''quest_daily'', 5),
        (''forum_threads'', 100000),
        (''forum_comments'', 100000),
        (''forum_votes'', 100000),
        (''insight_expansion'', 100000),
        (''save_to_journal'', 100000),
        (''concept_tagging'', 100000),
        (''media_attachments'', 100000)])]"

definition TIER_FEATURES :: "(string \<times> string list) list" where
  "TIER_FEATURES =
    [(''free'',
       [''basic_ask'', ''basic_journal'', ''basic_quest'', ''basic_explore'',
        ''basic_forum'']),
     (''premium'',
       [''basic_ask'', ''basic_journal'', ''basic_quest'', ''basic_explore'',
        ''basic_forum'', ''advanced_ask'', ''unlimited_journal'', ''advanced_quest'',
        ''advanced_explore'', ''advanced_forum'', ''extended_responses'',
        ''insight_expansion'', ''advanced_visualization'']),
     (''pro'',
       [''basic_ask'', ''basic_journal'', ''basic_quest'', ''basic_explore'',
        ''basic_forum'', ''advanced_ask'', ''unlimited_journal'', ''advanced_quest'',
        ''advanced_explore'', ''advanced_forum'', ''extended_responses'',
        ''insight_expansion'', ''advanced_visualization'', ''unlimited_ask'',
        ''custom_pathways'', ''premium_ai_models'', ''exclusive_content'',
        ''unlimited_export''])]"

text \<open>The rank table of \<open>User.is_tier_or_higher\<close> (models/user.py).\<close>

definition tier_levels :: "(string \<times> int) list" where
  "tier_levels = [(''free'', 0), (''premium'', 1), (''pro'', 2)]"

text \<open>
  The loop of \<open>SubscriptionService.check_feature_access\<close> (repeated in the route
  \<open>get_available_features\<close>):
  \<^verbatim>\<open>
  available_features = []
  for tier in TIER_FEATURES:
      available_features.extend(TIER_FEATURES[tier])
      if tier == user_tier:
          break
  \<close>
\<close>

fun collect_features :: "(string \<times> string list) list \<Rightarrow> string \<Rightarrow> string list" where
  "collect_features [] user_tier = []"
| "collect_features ((tier, features) # rest) user_tier =
     features @ (if tier = user_tier then [] else collect_features rest user_tier)"

definition available_features :: "string \<Rightarrow> string list" where
  "available_features user_tier = collect_features TIER_FEATURES user_tier"

text \<open>
  The limit lookup shared by \<open>check_usage_limit\<close> and \<open>check_rate_limit\<close>: the test
  \<open>feature_name in TIER_LIMITS.get(user_tier, {})\<close> and the value found there.
\<close>

definition limit_for :: "string \<Rightarrow> string \<Rightarrow> int option" where
  "limit_for user_tier feature_name = map_of (dict_get TIER_LIMITS user_tier []) feature_name"


text \<open>
  The loop that both \<open>verify_feature_access\<close> (middleware.py) and the route
  \<open>check_feature_access\<close> (routes.py) run to find the tier a feature requires:
  \<^verbatim>\<open>
  required_tier = None
  for tier, features in TIER_FEATURES.items():
      if feature_name in features:
          required_tier = tier
          break
  \<close>
\<close>

fun required_tier_loop :: "(string \<times> string list) list \<Rightarrow> string \<Rightarrow> string option" where
  "required_tier_loop [] feature_name = None"
| "required_tier_loop ((tier, features) # rest) feature_name =
     (if feature_name \<in> set features then Some tier
      else required_tier_loop rest feature_name)"

definition required_tier :: "string \<Rightarrow> string option" where
  "required_tier feature_name = required_tier_loop TIER_FEATURES feature_name"

text \<open>\<open>x or y\<close> on an optional string: \<open>None\<close> and the empty string are falsy.\<close>

definition py_or :: "string option \<Rightarrow> string \<Rightarrow> string" where
  "py_or x y = (case x of None \<Rightarrow> y | Some t \<Rightarrow> if t = [] then y else t)"

text \<open>\<open>str\<close> of an integer, and \<open>str(b).lower()\<close> of a boolean.\<close>

fun str_nat :: "nat \<Rightarrow> string" where
  "str_nat n =
     (if n < 10 then [''0123456789'' ! n]
      else str_nat (n div 10) @ [''0123456789'' ! (n mod 10)])"

definition str_int :: "int \<Rightarrow> string" where
  "str_int i = (if i < 0 then CHR ''-'' # str_nat (nat (- i)) else str_nat (nat i))"

definition str_bool_lower :: "bool \<Rightarrow> string" where
  "str_bool_lower b = (if b then ''true'' else ''false'')"

section \<open>The data model (models/subscription.py, models/user.py)\<close>

text \<open>
  A \<open>UserSubscription\<close> row, with the columns the services read or write by name; the
  billing columns (Stripe identifiers, period bounds) and the timestamps are never read
  by the code modelled here. A \<open>User\<close> is its primary key: its \<open>subscription\<close>
  relationship is the row of \<open>user_subscriptions\<close> with that key.
\<close>

record user_subscription =
  subscription_tier :: string
  status :: string
  cancel_at_period_end :: bool

record user =
  user_id :: nat

record subscription_event =
  event_user_id :: nat
  event_type :: string
  previous_tier :: "string option"
  new_tier :: "string option"

text \<open>
  The database session and the clock. \<open>feature_usage\<close> is the table of daily counters,
  keyed by (user, feature, day) as its unique index says. \<open>usage_calls\<close> is a trace of
  the calls made on that table: the query \<open>db.query(FeatureUsage).filter(...).first()\<close>
  and the commit of an added or updated row; it is written by nothing else and read by
  no service, and lets a theorem say that a path makes no call on the counter store.
  \<open>today\<close> is \<open>date.today()\<close>; \<open>seconds_until_reset\<close> and \<open>tomorrow_isoformat\<close> are
  what \<open>check_rate_limit\<close> computes from \<open>datetime.now()\<close>.
\<close>

datatype store_call = UsageQuery nat string nat | UsageCommit nat string nat int

record state =
  user_subscriptions :: "nat \<rightharpoonup> user_subscription"
  feature_usage :: "nat \<times> string \<times> nat \<rightharpoonup> int"
  subscription_events :: "subscription_event list"
  usage_calls :: "store_call list"
  today :: nat
  seconds_until_reset :: int
  tomorrow_isoformat :: string

definition is_active :: "user_subscription \<Rightarrow> bool" where
  "is_active subscription = (status subscription = ''active'')"

text \<open>The property \<open>User.subscription_tier\<close> and the method \<open>User.is_tier_or_higher\<close>.\<close>

definition user_subscription_tier :: "state \<Rightarrow> user \<Rightarrow> string" where
  "user_subscription_tier s u =
     (case user_subscriptions s (user_id u) of
        None \<Rightarrow> ''free''
      | Some subscription \<Rightarrow> subscription_tier subscription)"

definition is_tier_or_higher :: "state \<Rightarrow> user \<Rightarrow> string \<Rightarrow> bool" where
  "is_tier_or_higher s u tier =
     (let user_tier_level = dict_get tier_levels (user_subscription_tier s u) 0;
          required_tier_level = dict_get tier_levels tier 0
      in user_tier_level \<ge> required_tier_level)"

section \<open>SubscriptionService (subscription\_service.py)\<close>

text \<open>
  The service holds the database session and an optional analytics collaborator, which
  only receives events (\<open>analytics.track\<close>) after the commit and is \<open>None\<close> unless
  injected; it is left out. A commit followed by a refresh leaves the row as written.
\<close>

definition get_user_subscription :: "state \<Rightarrow> nat \<Rightarrow> user_subscription option" where
  "get_user_subscription s uid = user_subscriptions s uid"

definition get_user_tier :: "state \<Rightarrow> nat \<Rightarrow> string" where
  "get_user_tier s uid =
     (case get_user_subscription s uid of
        None \<Rightarrow> ''free''
      | Some subscription \<Rightarrow>
          if is_active subscription then subscription_tier subscription else ''free'')"

definition check_feature_access :: "state \<Rightarrow> nat \<Rightarrow> string \<Rightarrow> bool" where
  "check_feature_access s uid feature_name =
     (let user_tier = get_user_tier s uid
      in feature_name \<in> set (collect_features TIER_FEATURES user_tier))"

text \<open>The query for today's \<open>FeatureUsage\<close> row of a user and a feature.\<close>

definition query_usage :: "nat \<Rightarrow> string \<Rightarrow> nat \<Rightarrow> state \<Rightarrow> int option \<times> state" where
  "query_usage uid feature_name day s =
     (feature_usage s (uid, feature_name, day),
      s\<lparr>usage_calls := usage_calls s @ [UsageQuery uid feature_name day]\<rparr>)"

definition check_usage_limit :: "nat \<Rightarrow> string \<Rightarrow> state \<Rightarrow> error + ((bool \<times> int) \<times> state)" where
  "check_usage_limit uid feature_name s =
     (let user_tier = get_user_tier s uid in
      if \<not> dict_in feature_name (dict_get TIER_LIMITS user_tier [])
      then Inr ((True, 9999), s)
      else
        try_bind (dict_subscript TIER_LIMITS user_tier) (\<lambda>limits.
        try_bind (dict_subscript limits feature_name) (\<lambda>daily_limit.
          let (usage, s1) = query_usage uid feature_name (today s) s;
              used_today = (case usage of None \<Rightarrow> 0 | Some c \<Rightarrow> c);
              remaining = max 0 (daily_limit - used_today)
          in Inr ((remaining > 0, remaining), s1))))"

definition increment_usage :: "nat \<Rightarrow> string \<Rightarrow> int \<Rightarrow> state \<Rightarrow> int \<times> state" where
  "increment_usage uid feature_name amount s =
     (let (usage, s1) = query_usage uid feature_name (today s) s;
          usage_count = (case usage of None \<Rightarrow> amount | Some c \<Rightarrow> c + amount);
          s2 = s1\<lparr>feature_usage := (feature_usage s1)((uid, feature_name, today s) \<mapsto> usage_count),
                  usage_calls := usage_calls s1 @ [UsageCommit uid feature_name (today s) usage_count]\<rparr>
      in (usage_count, s2))"

definition record_subscription_event ::
  "nat \<Rightarrow> string \<Rightarrow> string option \<Rightarrow> string option \<Rightarrow> state \<Rightarrow> subscription_event \<times> state" where
  "record_subscription_event uid etype prev new s =
     (let event = \<lparr>event_user_id = uid, event_type = etype, previous_tier = prev, new_tier = new\<rparr>
      in (event, s\<lparr>subscription_events := subscription_events s @ [event]\<rparr>))"

text \<open>
  \<open>SubscriptionCreate\<close> and \<open>SubscriptionUpdate\<close> (schemas/subscription.py), with the
  fields of the row above; in an update a field that was not set is \<open>None\<close>.
\<close>

record subscription_create =
  create_user_id :: nat
  create_subscription_tier :: string
  create_status :: string
  create_cancel_at_period_end :: bool

record subscription_update =
  update_subscription_tier :: "string option"
  update_status :: "string option"
  update_cancel_at_period_end :: "bool option"

definition create_subscription :: "subscription_create \<Rightarrow> state \<Rightarrow> error + (user_subscription \<times> state)" where
  "create_subscription subscription_data s =
     (case get_user_subscription s (create_user_id subscription_data) of
        Some existing \<Rightarrow> Inl (HTTPException 400 ''User already has a subscription'' [])
      | None \<Rightarrow>
          let subscription = \<lparr>subscription_tier = create_subscription_tier subscription_data,
                              status = create_status subscription_data,
                              cancel_at_period_end = create_cancel_at_period_end subscription_data\<rparr>;
              s1 = s\<lparr>user_subscriptions :=
                       (user_subscriptions s)(create_user_id subscription_data \<mapsto> subscription)\<rparr>;
              (event, s2) = record_subscription_event (create_user_id subscription_data)
                              ''subscription_created'' None
                              (Some (create_subscription_tier subscription_data)) s1
          in Inr (subscription, s2))"

text \<open>The \<open>setattr\<close> loop of \<open>update_subscription\<close> over the fields that were set.\<close>

definition set_fields :: "subscription_update \<Rightarrow> user_subscription \<Rightarrow> user_subscription" where
  "set_fields subscription_data subscription =
     subscription\<lparr>
       subscription_tier :=
         (case update_subscription_tier subscription_data of
            None \<Rightarrow> subscription_tier subscription | Some v \<Rightarrow> v),
       status :=
         (case update_status subscription_data of
            None \<Rightarrow> status subscription | Some v \<Rightarrow> v),
       cancel_at_period_end :=
         (case update_cancel_at_period_end subscription_data of
            None \<Rightarrow> cancel_at_period_end subscription | Some v \<Rightarrow> v)\<rparr>"

definition update_subscription ::
  "nat \<Rightarrow> subscription_update \<Rightarrow> state \<Rightarrow> error + (user_subscription \<times> state)" where
  "update_subscription uid subscription_data s =
     (case get_user_subscription s uid of
        None \<Rightarrow> Inl (HTTPException 404 ''User subscription not found'' [])
      | Some subscription \<Rightarrow>
          let previous = subscription_tier subscription;
              subscription1 = set_fields subscription_data subscription;
              s1 = s\<lparr>user_subscriptions := (user_subscriptions s)(uid \<mapsto> subscription1)\<rparr>;
              s2 = (case update_subscription_tier subscription_data of
                      None \<Rightarrow> s1
                    | Some t \<Rightarrow>
                        if t \<noteq> [] \<and> previous \<noteq> t
                        then snd (record_subscription_event uid ''subscription_changed''
                                    (Some previous) (Some t) s1)
                        else s1)
          in Inr (subscription1, s2))"

definition cancel_subscription :: "nat \<Rightarrow> bool \<Rightarrow> state \<Rightarrow> error + (user_subscription \<times> state)" where
  "cancel_subscription uid immediate s =
     (case get_user_subscription s uid of
        None \<Rightarrow> Inl (HTTPException 404 ''User subscription not found'' [])
      | Some subscription \<Rightarrow>
          let subscription1 =
                (if immediate
                 then subscription\<lparr>status := ''canceled'', subscription_tier := ''free''\<rparr>
                 else subscription\<lparr>cancel_at_period_end := True\<rparr>);
              s1 = s\<lparr>user_subscriptions := (user_subscriptions s)(uid \<mapsto> subscription1)\<rparr>;
              etype = (if immediate then ''subscription_canceled_immediate''
                       else ''subscription_canceled_period_end'');
              (event, s2) = record_subscription_event uid etype
                              (Some (subscription_tier subscription1))
                              (Some (if immediate then ''free'' else subscription_tier subscription1))
                              s1
          in Inr (subscription1, s2))"

section \<open>RateLimitService (rate\_limit\_service.py)\<close>

text \<open>
  The metadata dictionary of \<open>check_rate_limit\<close>: the keys \<open>tier\<close> and \<open>limit_type\<close>
  are always present, the others only on the daily-limit path (\<open>None\<close> is an absent
  key); \<open>increment_and_check\<close> adds the key \<open>remaining\<close>.
\<close>

record metadata =
  md_tier :: string
  md_limit_type :: string
  md_reset_seconds :: "int option"
  md_reset_time :: "string option"
  md_limit :: "int option"
  md_upgrade_required :: "bool option"
  md_remaining :: "int option"

definition check_rate_limit ::
  "nat \<Rightarrow> string \<Rightarrow> state \<Rightarrow> error + ((bool \<times> int \<times> metadata) \<times> state)" where
  "check_rate_limit uid feature_name s =
     (let user_tier = get_user_tier s uid in
      if \<not> dict_in feature_name (dict_get TIER_LIMITS user_tier [])
      then Inr ((True, 9999,
                 \<lparr>md_tier = user_tier, md_limit_type = ''none'', md_reset_seconds = None,
                  md_reset_time = None, md_limit = None, md_upgrade_required = None,
                  md_remaining = None\<rparr>), s)
      else
        try_bind (check_usage_limit uid feature_name s) (\<lambda>((allowed, remaining), s1).
        try_bind (dict_subscript TIER_LIMITS user_tier) (\<lambda>limits.
        try_bind (dict_subscript limits feature_name) (\<lambda>limit.
          Inr ((allowed, remaining,
                \<lparr>md_tier = user_tier, md_limit_type = ''daily'',
                 md_reset_seconds = Some (seconds_until_reset s),
                 md_reset_time = Some (tomorrow_isoformat s),
                 md_limit = Some limit,
                 md_upgrade_required = Some (\<not> allowed \<and> user_tier \<noteq> ''pro''),
                 md_remaining = None\<rparr>), s1)))))"

definition increment_and_check ::
  "nat \<Rightarrow> string \<Rightarrow> int \<Rightarrow> state \<Rightarrow> error + ((bool \<times> int \<times> metadata) \<times> state)" where
  "increment_and_check uid feature_name amount s =
     try_bind (check_rate_limit uid feature_name s) (\<lambda>((allowed, remaining, md), s1).
       if allowed then
         let increment_amount = min amount remaining;
             (usage_count, s2) = increment_usage uid feature_name increment_amount s1;
             remaining1 = max 0 (remaining - increment_amount)
         in Inr ((allowed, remaining1, md\<lparr>md_remaining := Some remaining1\<rparr>), s2)
       else Inr ((allowed, remaining, md), s1))"

definition get_rate_limit_headers :: "bool \<Rightarrow> int \<Rightarrow> metadata \<Rightarrow> (string \<times> string) list" where
  "get_rate_limit_headers allowed remaining md =
     [(''X-RateLimit-Limit'', str_int (case md_limit md of None \<Rightarrow> 0 | Some l \<Rightarrow> l)),
      (''X-RateLimit-Remaining'', str_int remaining),
      (''X-RateLimit-Reset'', str_int (case md_reset_seconds md of None \<Rightarrow> 0 | Some r \<Rightarrow> r)),
      (''X-Tier-Level'', md_tier md),
      (''X-Upgrade-Required'',
         str_bool_lower (case md_upgrade_required md of None \<Rightarrow> False | Some b \<Rightarrow> b))]"

section \<open>Request dependencies (middleware.py) and the feature-access route (routes.py)\<close>

text \<open>
  A dependency either raises an \<open>HTTPException\<close>, and the request is rejected, or
  returns the current user, and the route runs. The dependencies on usage also leave
  the rate-limit headers in \<open>request.state\<close>; they are returned beside the user.
\<close>

definition tier_names :: "(string \<times> string) list" where
  "tier_names = [(''free'', ''Free''), (''premium'', ''Premium''), (''pro'', ''Pro'')]"

definition verify_subscription_tier :: "string \<Rightarrow> user \<Rightarrow> state \<Rightarrow> error + user" where
  "verify_subscription_tier required current_user s =
     (let user_tier = get_user_tier s (user_id current_user) in
      if \<not> is_tier_or_higher s current_user required
      then Inl (HTTPException 402
                 (''This feature requires a '' @ dict_get tier_names required required
                    @ '' subscription'')
                 [(''X-Current-Tier'', user_tier),
                  (''X-Required-Tier'', required),
                  (''X-Upgrade-Required'', ''true'')])
      else Inr current_user)"

definition verify_feature_access :: "string \<Rightarrow> user \<Rightarrow> state \<Rightarrow> error + user" where
  "verify_feature_access feature_name current_user s =
     (let has_access = check_feature_access s (user_id current_user) feature_name in
      if \<not> has_access
      then
        let required = py_or (required_tier feature_name) ''premium''
        in Inl (HTTPException 402 ''This feature requires a higher subscription tier''
                 [(''X-Current-Tier'', get_user_tier s (user_id current_user)),
                  (''X-Required-Tier'', required),
                  (''X-Feature-Name'', feature_name),
                  (''X-Upgrade-Required'', ''true'')])
      else Inr current_user)"

definition verify_usage_limit ::
  "string \<Rightarrow> user \<Rightarrow> state \<Rightarrow> error + ((user \<times> (string \<times> string) list) \<times> state)" where
  "verify_usage_limit feature_name current_user s =
     try_bind (check_rate_limit (user_id current_user) feature_name s)
       (\<lambda>((allowed, remaining, md), s1).
          let rate_limit_headers = get_rate_limit_headers allowed remaining md in
          if \<not> allowed
          then Inl (HTTPException 429 (''Usage limit reached for '' @ feature_name)
                     rate_limit_headers)
          else Inr ((current_user, rate_limit_headers), s1))"

definition track_usage ::
  "string \<Rightarrow> int \<Rightarrow> user \<Rightarrow> state \<Rightarrow> error + ((user \<times> (string \<times> string) list) \<times> state)" where
  "track_usage feature_name amount current_user s =
     try_bind (increment_and_check (user_id current_user) feature_name amount s)
       (\<lambda>((allowed, remaining, md), s1).
          let rate_limit_headers = get_rate_limit_headers allowed remaining md
          in Inr ((current_user, rate_limit_headers), s1))"

text \<open>The route \<open>GET /feature-access/{feature_name}\<close> and its response dictionary.\<close>

record feature_access_response =
  resp_feature_name :: string
  resp_has_access :: bool
  resp_current_tier :: string
  resp_required_tier :: string

definition route_check_feature_access ::
  "string \<Rightarrow> user \<Rightarrow> state \<Rightarrow> error + feature_access_response" where
  "route_check_feature_access feature_name current_user s =
     (let has_access = check_feature_access s (user_id current_user) feature_name;
          feature_exists = list_ex (\<lambda>(tier, features). feature_name \<in> set features) TIER_FEATURES
      in
      if \<not> feature_exists
      then Inl (HTTPException 404
                 (''Feature '' @ [CHR 0x27] @ feature_name @ [CHR 0x27] @ '' not found'') [])
      else
        Inr \<lparr>resp_feature_name = feature_name,
             resp_has_access = has_access,
             resp_current_tier = get_user_tier s (user_id current_user),
             resp_required_tier = py_or (required_tier feature_name) ''unknown''\<rparr>)"

section \<open>Notions used to state the properties\<close>

text \<open>
  The value of today's counter of a user and a feature, 0 when there is no row (as
  \<open>check_usage_limit\<close> reads it).
\<close>

definition usage_today :: "state \<Rightarrow> nat \<Rightarrow> string \<Rightarrow> int" where
  "usage_today s uid feature_name =
     (case feature_usage s (uid, feature_name, today s) of None \<Rightarrow> 0 | Some c \<Rightarrow> c)"

text \<open>
  \<open>limits_le A B\<close>: every limit of the table \<open>A\<close> is at most the limit of the same
  feature in the table \<open>B\<close>, when \<open>B\<close> has one.
\<close>

definition limits_le :: "(string \<times> int) list \<Rightarrow> (string \<times> int) list \<Rightarrow> bool" where
  "limits_le A B =
     list_all (\<lambda>(f, l1). case map_of B f of None \<Rightarrow> True | Some l2 \<Rightarrow> l1 \<le> l2) A"

text \<open>What a call left behind, read off its result (\<open>None\<close> when it raised).\<close>

definition outcome :: "error + ((bool \<times> int \<times> metadata) \<times> state) \<Rightarrow> (bool \<times> int) option" where
  "outcome r =
     (case r of Inl e \<Rightarrow> None | Inr ((allowed, remaining, md), s') \<Rightarrow> Some (allowed, remaining))"

definition counter_after :: "error + ('a \<times> state) \<Rightarrow> nat \<Rightarrow> string \<Rightarrow> int option" where
  "counter_after r uid feature_name =
     (case r of Inl e \<Rightarrow> None | Inr (x, s') \<Rightarrow> Some (usage_today s' uid feature_name))"

definition calls_after :: "error + ('a \<times> state) \<Rightarrow> store_call list option" where
  "calls_after r = (case r of Inl e \<Rightarrow> None | Inr (x, s') \<Rightarrow> Some (usage_calls s'))"

text \<open>
  \<open>k\<close> calls of \<open>increment_and_check\<close> with amount 1, one after the other, on the same
  user and feature: the number of calls that were allowed, and the state they leave.
\<close>

fun track_calls :: "nat \<Rightarrow> nat \<Rightarrow> string \<Rightarrow> state \<Rightarrow> nat \<times> state" where
  "track_calls 0 uid feature_name s = (0, s)"
| "track_calls (Suc k) uid feature_name s =
     (case increment_and_check uid feature_name 1 s of
        Inl e \<Rightarrow> (0, s)
      | Inr ((allowed, remaining, md), s1) \<Rightarrow>
          (case track_calls k uid feature_name s1 of
             (n, s2) \<Rightarrow> ((if allowed then 1 else 0) + n, s2)))"

subsection \<open>Concrete states\<close>

text \<open>
  An empty database on day 0, one hour before midnight; the same with a counter of
  \<open>c\<close> for user 1 and the feature \<open>ask_questions\<close> (a user without a subscription row);
  and the same with a subscription row for user 1.
\<close>

definition empty_state :: state where
  "empty_state =
     \<lparr>user_subscriptions = Map.empty, feature_usage = Map.empty, subscription_events = [],
      usage_calls = [], today = 0, seconds_until_reset = 3600,
      tomorrow_isoformat = ''2025-06-02T00:00:00''\<rparr>"

definition usage_state :: "int \<Rightarrow> state" where
  "usage_state c = empty_state\<lparr>feature_usage := [(1, ''ask_questions'', 0) \<mapsto> c]\<rparr>"

definition subscribed_state :: "string \<Rightarrow> string \<Rightarrow> state" where
  "subscribed_state tier st =
     empty_state\<lparr>user_subscriptions :=
       [1 \<mapsto> \<lparr>subscription_tier = tier, status = st, cancel_at_period_end = False\<rparr>]\<rparr>"

text \<open>
  User 1 after an immediate cancellation of a premium subscription on a day on which
  12 questions had been asked: the row says \<open>free\<close> and \<open>canceled\<close>, the counter is 12.
\<close>

definition downgraded_state :: state where
  "downgraded_state =
     (subscribed_state ''free'' ''canceled'')\<lparr>feature_usage := [(1, ''ask_questions'', 0) \<mapsto> 12]\<rparr>"

declare str_nat.simps [simp del]

section \<open>Lemmas on the catalog and the lookups\<close>

lemma available_features_simps:
  "available_features ''free'' = dict_get TIER_FEATURES ''free'' []"
  "available_features ''premium'' =
     dict_get TIER_FEATURES ''free'' [] @ dict_get TIER_FEATURES ''premium'' []"
  "available_features ''pro'' =
     dict_get TIER_FEATURES ''free'' [] @ dict_get TIER_FEATURES ''premium'' []
       @ dict_get TIER_FEATURES ''pro'' []"
  by (simp_all add: available_features_def TIER_FEATURES_def dict_get_def)

lemma tier_levels_cases:
  "map_of tier_levels t = Some r \<Longrightarrow>
     (t = ''free'' \<and> r = 0) \<or> (t = ''premium'' \<and> r = 1) \<or> (t = ''pro'' \<and> r = 2)"
  by (simp add: tier_levels_def split: if_splits)

lemma features_free_premium:
  "set (available_features ''free'') \<subseteq> set (available_features ''premium'')"
  by (auto simp: available_features_simps)

lemma features_premium_pro:
  "set (available_features ''premium'') \<subseteq> set (available_features ''pro'')"
  by (auto simp: available_features_simps)

lemma limits_leD:
  assumes "limits_le A B" and "map_of A f = Some l1" and "map_of B f = Some l2"
  shows "l1 \<le> l2"
proof -
  from assms(2) have "(f, l1) \<in> set A" by (rule map_of_SomeD)
  with assms(1) have "case map_of B f of None \<Rightarrow> True | Some l2 \<Rightarrow> l1 \<le> l2"
    unfolding limits_le_def list_all_iff by fastforce
  with assms(3) show ?thesis by simp
qed

lemma limits_free_premium:
  "limits_le (dict_get TIER_LIMITS ''free'' []) (dict_get TIER_LIMITS ''premium'' [])"
  by (simp add: limits_le_def TIER_LIMITS_def dict_get_def)

lemma limits_premium_pro:
  "limits_le (dict_get TIER_LIMITS ''premium'' []) (dict_get TIER_LIMITS ''pro'' [])"
  by (simp add: limits_le_def TIER_LIMITS_def dict_get_def)

lemma limits_free_pro:
  "limits_le (dict_get TIER_LIMITS ''free'' []) (dict_get TIER_LIMITS ''pro'' [])"
  by (simp add: limits_le_def TIER_LIMITS_def dict_get_def)

text \<open>
  C7. Over the static catalog, whenever a tier \<open>t1\<close> is ranked below a tier \<open>t2\<close> (by
  the rank table \<open>tier_levels\<close>), every feature reachable at \<open>t1\<close> (the cumulative list
  that \<open>check_feature_access\<close> collects) is reachable at \<open>t2\<close>, and every feature with a
  limit at both tiers has a limit at \<open>t1\<close> that is at most its limit at \<open>t2\<close>.
\<close>

theorem tier_catalog_monotone:
  assumes "map_of tier_levels t1 = Some r1" and "map_of tier_levels t2 = Some r2"
    and "r1 < r2"
  shows "set (available_features t1) \<subseteq> set (available_features t2) \<and>
         (\<forall>f l1 l2. limit_for t1 f = Some l1 \<and> limit_for t2 f = Some l2 \<longrightarrow> l1 \<le> l2)"
proof -
  from tier_levels_cases[OF assms(1)] tier_levels_cases[OF assms(2)] assms(3)
  consider "t1 = ''free''" "t2 = ''premium''"
    | "t1 = ''free''" "t2 = ''pro''"
    | "t1 = ''premium''" "t2 = ''pro''"
    by auto
  then show ?thesis
  proof cases
    case 1
    then show ?thesis
      using features_free_premium limits_leD[OF limits_free_premium]
      by (auto simp: limit_for_def)
  next
    case 2
    then show ?thesis
      using features_free_premium features_premium_pro limits_leD[OF limits_free_pro]
      by (auto simp: limit_for_def)
  next
    case 3
    then show ?thesis
      using features_premium_pro limits_leD[OF limits_premium_pro]
      by (auto simp: limit_for_def)
  qed
qed

theorem tier_catalog_monotone_witness:
  "map_of tier_levels ''free'' = Some 0 \<and> map_of tier_levels ''pro'' = Some 2 \<and>
   set (available_features ''free'') \<subseteq> set (available_features ''pro'') \<and>
   limit_for ''free'' ''quest_daily'' = Some 1 \<and> limit_for ''pro'' ''quest_daily'' = Some 5 \<and>
   (1::int) \<le> 5"
proof -
  have r1: "map_of tier_levels ''free'' = Some 0" and r2: "map_of tier_levels ''pro'' = Some 2"
    by (simp_all add: tier_levels_def)
  have l1: "limit_for ''free'' ''quest_daily'' = Some 1"
    and l2: "limit_for ''pro'' ''quest_daily'' = Some 5"
    by (simp_all add: limit_for_def TIER_LIMITS_def dict_get_def)
  from tier_catalog_monotone[OF r1 r2] l1 l2 r1 r2 show ?thesis
    by simp
qed

section \<open>The rate limiter\<close>

lemma limit_for_SomeD:
  assumes "limit_for t f = Some L"
  shows "dict_in f (dict_get TIER_LIMITS t [])"
    and "\<exists>limits. dict_subscript TIER_LIMITS t = Inr limits \<and> dict_subscript limits f = Inr L"
proof -
  from assms have m: "map_of (dict_get TIER_LIMITS t []) f = Some L"
    by (simp add: limit_for_def)
  then show "dict_in f (dict_get TIER_LIMITS t [])"
    by (simp add: dict_in_def)
  from m obtain limits where l: "map_of TIER_LIMITS t = Some limits"
    by (cases "map_of TIER_LIMITS t") (simp_all add: dict_get_def)
  with m have "map_of limits f = Some L"
    by (simp add: dict_get_def)
  with l show "\<exists>limits. dict_subscript TIER_LIMITS t = Inr limits \<and> dict_subscript limits f = Inr L"
    by (simp add: dict_subscript_def)
qed

lemma limit_for_NoneD:
  "limit_for t f = None \<Longrightarrow> \<not> dict_in f (dict_get TIER_LIMITS t [])"
  by (simp add: limit_for_def dict_in_def)

lemma check_usage_limit_limited:
  assumes "limit_for (get_user_tier s uid) f = Some L"
  shows "check_usage_limit uid f s =
           Inr ((usage_today s uid f < L, max 0 (L - usage_today s uid f)),
                s\<lparr>usage_calls := usage_calls s @ [UsageQuery uid f (today s)]\<rparr>)"
proof -
  from limit_for_SomeD[OF assms] obtain limits where
    "dict_in f (dict_get TIER_LIMITS (get_user_tier s uid) [])"
    "dict_subscript TIER_LIMITS (get_user_tier s uid) = Inr limits"
    "dict_subscript limits f = Inr L"
    by blast
  then show ?thesis
    by (simp add: check_usage_limit_def try_bind_def query_usage_def usage_today_def Let_def)
       (simp add: max_def)
qed

lemma check_rate_limit_limited:
  assumes "limit_for (get_user_tier s uid) f = Some L"
  shows "check_rate_limit uid f s =
           Inr ((usage_today s uid f < L, max 0 (L - usage_today s uid f),
                 \<lparr>md_tier = get_user_tier s uid, md_limit_type = ''daily'',
                  md_reset_seconds = Some (seconds_until_reset s),
                  md_reset_time = Some (tomorrow_isoformat s),
                  md_limit = Some L,
                  md_upgrade_required =
                    Some (\<not> usage_today s uid f < L \<and> get_user_tier s uid \<noteq> ''pro''),
                  md_remaining = None\<rparr>),
                s\<lparr>usage_calls := usage_calls s @ [UsageQuery uid f (today s)]\<rparr>)"
proof -
  from limit_for_SomeD[OF assms] obtain limits where
    "dict_in f (dict_get TIER_LIMITS (get_user_tier s uid) [])"
    "dict_subscript TIER_LIMITS (get_user_tier s uid) = Inr limits"
    "dict_subscript limits f = Inr L"
    by blast
  then show ?thesis
    by (simp add: check_rate_limit_def check_usage_limit_limited[OF assms] try_bind_def Let_def)
qed

lemma check_rate_limit_unlimited:
  assumes "limit_for (get_user_tier s uid) f = None"
  shows "check_rate_limit uid f s =
           Inr ((True, 9999,
                 \<lparr>md_tier = get_user_tier s uid, md_limit_type = ''none'',
                  md_reset_seconds = None, md_reset_time = None, md_limit = None,
                  md_upgrade_required = None, md_remaining = None\<rparr>), s)"
  using limit_for_NoneD[OF assms] by (simp add: check_rate_limit_def Let_def)

lemma usage_today_increment_usage:
  "usage_today (snd (increment_usage uid f a s)) uid f = usage_today s uid f + a"
  by (simp add: increment_usage_def query_usage_def usage_today_def Let_def split: option.splits)

lemma usage_today_query [simp]:
  "usage_today (s\<lparr>usage_calls := c\<rparr>) uid f = usage_today s uid f"
  by (simp add: usage_today_def)

lemma increment_and_check_denied:
  assumes "limit_for (get_user_tier s uid) f = Some L" and "\<not> usage_today s uid f < L"
  shows "increment_and_check uid f amount s =
           Inr ((False, 0,
                 \<lparr>md_tier = get_user_tier s uid, md_limit_type = ''daily'',
                  md_reset_seconds = Some (seconds_until_reset s),
                  md_reset_time = Some (tomorrow_isoformat s),
                  md_limit = Some L,
                  md_upgrade_required = Some (get_user_tier s uid \<noteq> ''pro''),
                  md_remaining = None\<rparr>),
                s\<lparr>usage_calls := usage_calls s @ [UsageQuery uid f (today s)]\<rparr>)"
  using assms(2)
  by (simp add: increment_and_check_def check_rate_limit_limited[OF assms(1)] try_bind_def)

lemma increment_and_check_allowed:
  assumes "limit_for (get_user_tier s uid) f = Some L" and "usage_today s uid f < L"
  shows "increment_and_check uid f amount s =
           Inr ((True, L - usage_today s uid f - min amount (L - usage_today s uid f),
                 \<lparr>md_tier = get_user_tier s uid, md_limit_type = ''daily'',
                  md_reset_seconds = Some (seconds_until_reset s),
                  md_reset_time = Some (tomorrow_isoformat s),
                  md_limit = Some L,
                  md_upgrade_required = Some False,
                  md_remaining =
                    Some (L - usage_today s uid f - min amount (L - usage_today s uid f))\<rparr>),
                snd (increment_usage uid f (min amount (L - usage_today s uid f))
                       (s\<lparr>usage_calls := usage_calls s @ [UsageQuery uid f (today s)]\<rparr>)))"
proof -
  from assms(2) have m: "max 0 (L - usage_today s uid f) = L - usage_today s uid f"
    by simp
  have n: "max 0 (L - usage_today s uid f - min amount (L - usage_today s uid f))
             = L - usage_today s uid f - min amount (L - usage_today s uid f)"
    by simp
  show ?thesis
    using assms(2)
    by (simp add: increment_and_check_def check_rate_limit_limited[OF assms(1)] try_bind_def
          m n Let_def split_beta)
qed


text \<open>
  C1 (as amended). For a feature with a configured daily limit at the user's tier and
  a positive amount, \<open>increment_and_check\<close> is allowed exactly when today's counter is
  below the limit; it advances the counter by \<open>min(amount, max(0, limit - count))\<close>, so
  the counter never ends above the larger of the limit and its starting value (in
  particular never above the limit when it did not start above it); the remaining count
  it returns is recomputed from the counter it leaves; and when the pre-check says not
  allowed it returns remaining 0 and makes no write (the counters are unchanged and the
  only call on the store is the query).
\<close>

theorem increment_and_check_capped:
  assumes "limit_for (get_user_tier s uid) feature_name = Some limit" and "0 < amount"
  shows "\<exists>allowed remaining md s'.
           increment_and_check uid feature_name amount s = Inr ((allowed, remaining, md), s') \<and>
           (allowed \<longleftrightarrow> usage_today s uid feature_name < limit) \<and>
           usage_today s' uid feature_name =
             usage_today s uid feature_name +
               min amount (max 0 (limit - usage_today s uid feature_name)) \<and>
           usage_today s' uid feature_name \<le> max limit (usage_today s uid feature_name) \<and>
           remaining = max 0 (limit - usage_today s' uid feature_name) \<and>
           (\<not> allowed \<longrightarrow>
              remaining = 0 \<and> feature_usage s' = feature_usage s \<and>
              usage_calls s' = usage_calls s @ [UsageQuery uid feature_name (today s)])"
proof (cases "usage_today s uid feature_name < limit")
  case True
  show ?thesis
    unfolding increment_and_check_allowed[OF assms(1) True]
    using True
    by (intro exI conjI) (rule refl, simp_all add: usage_today_increment_usage)
next
  case False
  show ?thesis
    unfolding increment_and_check_denied[OF assms(1) False]
    using False assms(2)
    by (intro exI conjI) (rule refl, simp_all)
qed


lemma usage_state_simps:
  "get_user_tier (usage_state c) 1 = ''free''"
  "usage_today (usage_state c) 1 ''ask_questions'' = c"
  "today (usage_state c) = 0"
  "usage_calls (usage_state c) = []"
  by (simp_all add: usage_state_def empty_state_def get_user_tier_def get_user_subscription_def
        usage_today_def)

lemma limit_free_ask: "limit_for ''free'' ''ask_questions'' = Some 10"
  by (simp add: limit_for_def TIER_LIMITS_def dict_get_def)

text \<open>
  The example of the specification: limit 10 (free tier, \<open>ask_questions\<close>), 8 used,
  5 requested: the counter ends at 10 and 0 remain.
\<close>

theorem increment_and_check_capped_witness:
  "limit_for (get_user_tier (usage_state 8) 1) ''ask_questions'' = Some 10 \<and> (0::int) < 5 \<and>
   outcome (increment_and_check 1 ''ask_questions'' 5 (usage_state 8)) = Some (True, 0) \<and>
   counter_after (increment_and_check 1 ''ask_questions'' 5 (usage_state 8)) 1 ''ask_questions''
     = Some 10"
proof -
  have h: "limit_for (get_user_tier (usage_state 8) 1) ''ask_questions'' = Some 10"
    by (simp only: usage_state_simps limit_free_ask)
  have p: "(0::int) < 5" by simp
  from increment_and_check_capped[OF h p] obtain allowed remaining md s' where
    "increment_and_check 1 ''ask_questions'' 5 (usage_state 8) = Inr ((allowed, remaining, md), s')"
    "allowed \<longleftrightarrow> usage_today (usage_state 8) 1 ''ask_questions'' < 10"
    "usage_today s' 1 ''ask_questions'' =
       usage_today (usage_state 8) 1 ''ask_questions'' +
         min 5 (max 0 (10 - usage_today (usage_state 8) 1 ''ask_questions''))"
    "remaining = max 0 (10 - usage_today s' 1 ''ask_questions'')"
    by blast
  with h show ?thesis
    by (simp add: usage_state_simps outcome_def counter_after_def del: One_nat_def)
qed

lemma downgraded_state_simps:
  "get_user_tier downgraded_state 1 = ''free''"
  "usage_today downgraded_state 1 ''ask_questions'' = 12"
  by (simp_all add: downgraded_state_def subscribed_state_def empty_state_def get_user_tier_def
        get_user_subscription_def usage_today_def is_active_def)

text \<open>
  C1 as stated fails for a counter that starts above the limit, which the code expects
  (\<open>max(0, daily_limit - used_today)\<close>) and a downgrade produces: with the free limit of
  10 and a counter of 12, the call is denied, writes nothing and leaves the counter at
  12, above the limit.
\<close>

theorem increment_and_check_over_limit:
  "limit_for (get_user_tier downgraded_state 1) ''ask_questions'' = Some 10 \<and>
   usage_today downgraded_state 1 ''ask_questions'' = 12 \<and>
   outcome (increment_and_check 1 ''ask_questions'' 1 downgraded_state) = Some (False, 0) \<and>
   counter_after (increment_and_check 1 ''ask_questions'' 1 downgraded_state) 1 ''ask_questions''
     = Some 12"
proof -
  have h: "limit_for (get_user_tier downgraded_state 1) ''ask_questions'' = Some 10"
    by (simp only: downgraded_state_simps limit_free_ask)
  have d: "\<not> usage_today downgraded_state 1 ''ask_questions'' < 10"
    by (simp add: downgraded_state_simps del: One_nat_def)
  show ?thesis
    using h by (simp add: increment_and_check_denied[OF h d] outcome_def counter_after_def
          downgraded_state_simps del: One_nat_def)
qed

lemma usage_calls_increment_usage:
  "usage_calls (snd (increment_usage uid f a s)) =
     usage_calls s @ [UsageQuery uid f (today s), UsageCommit uid f (today s) (usage_today s uid f + a)]"
  by (simp add: increment_usage_def query_usage_def usage_today_def Let_def split: option.splits)

lemma increment_and_check_unlimited:
  assumes "limit_for (get_user_tier s uid) f = None"
  shows "increment_and_check uid f amount s =
           Inr ((True, max 0 (9999 - min amount 9999),
                 \<lparr>md_tier = get_user_tier s uid, md_limit_type = ''none'',
                  md_reset_seconds = None, md_reset_time = None, md_limit = None,
                  md_upgrade_required = None,
                  md_remaining = Some (max 0 (9999 - min amount 9999))\<rparr>),
                snd (increment_usage uid f (min amount 9999) s))"
  by (simp add: increment_and_check_def check_rate_limit_unlimited[OF assms] try_bind_def
        Let_def split_beta)

text \<open>
  C5 (as amended). For a feature without a configured limit at the user's tier,
  \<open>check_rate_limit\<close> returns allowed with the sentinel 9999 and limit type \<open>none\<close> and
  leaves the state as it was (no call on the counter store). \<open>increment_and_check\<close>,
  with a positive amount, returns allowed with limit type \<open>none\<close> too, but it records
  the usage: it queries the counter and commits it advanced by \<open>min(amount, 9999)\<close>,
  and returns \<open>9999 - min(amount, 9999)\<close> as remaining.
\<close>

theorem untracked_feature_paths:
  assumes "limit_for (get_user_tier s uid) feature_name = None" and "0 < amount"
  shows "(\<exists>md. check_rate_limit uid feature_name s = Inr ((True, 9999, md), s) \<and>
               md_limit_type md = ''none'') \<and>
         (\<exists>md s'. increment_and_check uid feature_name amount s =
                     Inr ((True, 9999 - min amount 9999, md), s') \<and>
                  md_limit_type md = ''none'' \<and>
                  usage_today s' uid feature_name =
                    usage_today s uid feature_name + min amount 9999 \<and>
                  usage_calls s' = usage_calls s @
                    [UsageQuery uid feature_name (today s),
                     UsageCommit uid feature_name (today s)
                       (usage_today s uid feature_name + min amount 9999)])"
  unfolding increment_and_check_unlimited[OF assms(1)] check_rate_limit_unlimited[OF assms(1)]
  by (simp add: usage_today_increment_usage usage_calls_increment_usage)


lemma empty_state_simps:
  "get_user_tier empty_state uid = ''free''"
  "usage_today empty_state uid f = 0"
  "today empty_state = 0"
  "usage_calls empty_state = []"
  by (simp_all add: empty_state_def get_user_tier_def get_user_subscription_def usage_today_def)

lemma limit_free_basic_ask: "limit_for ''free'' ''basic_ask'' = None"
  by (simp add: limit_for_def TIER_LIMITS_def dict_get_def)

text \<open>
  The feature \<open>basic_ask\<close> has no limit at the free tier: the check makes no store call,
  tracking 3 uses writes a counter of 3 and reports 9996 remaining.
\<close>

theorem untracked_feature_paths_witness:
  "limit_for (get_user_tier empty_state 1) ''basic_ask'' = None \<and> (0::int) < 3 \<and>
   outcome (check_rate_limit 1 ''basic_ask'' empty_state) = Some (True, 9999) \<and>
   calls_after (check_rate_limit 1 ''basic_ask'' empty_state) = Some [] \<and>
   outcome (increment_and_check 1 ''basic_ask'' 3 empty_state) = Some (True, 9996) \<and>
   counter_after (increment_and_check 1 ''basic_ask'' 3 empty_state) 1 ''basic_ask'' = Some 3 \<and>
   calls_after (increment_and_check 1 ''basic_ask'' 3 empty_state) =
     Some [UsageQuery 1 ''basic_ask'' 0, UsageCommit 1 ''basic_ask'' 0 3]"
proof -
  have h: "limit_for (get_user_tier empty_state 1) ''basic_ask'' = None"
    by (simp only: empty_state_simps limit_free_basic_ask)
  have p: "(0::int) < 3" by simp
  from untracked_feature_paths[OF h p] h show ?thesis
    by (auto simp: outcome_def counter_after_def calls_after_def empty_state_simps
          simp del: One_nat_def)
qed

text \<open>
  C5 as stated fails on the check-and-track path: for the untracked feature
  \<open>basic_ask\<close>, \<open>increment_and_check\<close> with amount 1 reads and writes the counter store
  and returns 9998, not the sentinel.
\<close>

theorem increment_and_check_untracked_writes:
  "limit_for (get_user_tier empty_state 1) ''basic_ask'' = None \<and>
   outcome (increment_and_check 1 ''basic_ask'' 1 empty_state) = Some (True, 9998) \<and>
   counter_after (increment_and_check 1 ''basic_ask'' 1 empty_state) 1 ''basic_ask'' = Some 1 \<and>
   calls_after (increment_and_check 1 ''basic_ask'' 1 empty_state) =
     Some [UsageQuery 1 ''basic_ask'' 0, UsageCommit 1 ''basic_ask'' 0 1]"
proof -
  have h: "limit_for (get_user_tier empty_state 1) ''basic_ask'' = None"
    by (simp only: empty_state_simps limit_free_basic_ask)
  show ?thesis
    using h
    by (simp add: increment_and_check_unlimited[OF h] outcome_def counter_after_def
          calls_after_def usage_today_increment_usage usage_calls_increment_usage
          empty_state_simps del: One_nat_def)
qed

text \<open>
  C6. \<open>increment_and_check\<close> does not reject an amount that is not positive. With the
  free limit of 10 and 5 used, the amount \<open>-3\<close> is allowed, queries and commits the
  counter, which drops from 5 to 2, and 8 are reported as remaining; the amount 0 is
  allowed as well and commits the counter unchanged.
\<close>

theorem increment_and_check_nonpositive_amount:
  "outcome (increment_and_check 1 ''ask_questions'' (- 3) (usage_state 5)) = Some (True, 8) \<and>
   counter_after (increment_and_check 1 ''ask_questions'' (- 3) (usage_state 5)) 1
     ''ask_questions'' = Some 2 \<and>
   calls_after (increment_and_check 1 ''ask_questions'' (- 3) (usage_state 5)) =
     Some [UsageQuery 1 ''ask_questions'' 0, UsageQuery 1 ''ask_questions'' 0,
           UsageCommit 1 ''ask_questions'' 0 2] \<and>
   outcome (increment_and_check 1 ''ask_questions'' 0 (usage_state 5)) = Some (True, 5) \<and>
   calls_after (increment_and_check 1 ''ask_questions'' 0 (usage_state 5)) =
     Some [UsageQuery 1 ''ask_questions'' 0, UsageQuery 1 ''ask_questions'' 0,
           UsageCommit 1 ''ask_questions'' 0 5]"
proof -
  have h: "limit_for (get_user_tier (usage_state 5) 1) ''ask_questions'' = Some 10"
    by (simp only: usage_state_simps limit_free_ask)
  have a: "usage_today (usage_state 5) 1 ''ask_questions'' < 10"
    by (simp add: usage_state_simps del: One_nat_def)
  show ?thesis
    by (simp add: increment_and_check_allowed[OF h a] outcome_def counter_after_def
          calls_after_def usage_today_increment_usage usage_calls_increment_usage
          usage_state_simps del: One_nat_def)
qed

lemma increment_and_check_returns:
  "\<exists>allowed remaining md s'.
     increment_and_check uid f amount s = Inr ((allowed, remaining, md), s') \<and>
     (allowed \<longleftrightarrow>
        (case limit_for (get_user_tier s uid) f of
           None \<Rightarrow> True | Some limit \<Rightarrow> usage_today s uid f < limit)) \<and>
     (\<not> allowed \<longrightarrow>
        feature_usage s' = feature_usage s \<and>
        usage_calls s' = usage_calls s @ [UsageQuery uid f (today s)])"
proof (cases "limit_for (get_user_tier s uid) f")
  case None
  show ?thesis
    unfolding increment_and_check_unlimited[OF None] using None
    by (intro exI conjI) (rule refl, simp_all)
next
  case (Some limit)
  show ?thesis
  proof (cases "usage_today s uid f < limit")
    case True
    show ?thesis
      unfolding increment_and_check_allowed[OF Some True] using Some True
      by (intro exI conjI) (rule refl, simp_all)
  next
    case False
    show ?thesis
      unfolding increment_and_check_denied[OF Some False] using Some False
      by (intro exI conjI) (rule refl, simp_all)
  qed
qed

text \<open>
  C10. The dependency \<open>track_usage\<close> never raises and never rejects: for every user,
  feature, amount and state it returns the current user, with the headers computed from
  the result of \<open>increment_and_check\<close>. That result is not allowed exactly when the
  feature has a limit at the user's tier and today's counter has reached it, and then
  nothing is incremented: the counters are unchanged and the only call on the counter
  store is the query.
\<close>

theorem track_usage_never_rejects:
  "\<exists>allowed remaining md s'.
     increment_and_check (user_id current_user) feature_name amount s =
       Inr ((allowed, remaining, md), s') \<and>
     track_usage feature_name amount current_user s =
       Inr ((current_user, get_rate_limit_headers allowed remaining md), s') \<and>
     (allowed \<longleftrightarrow>
        (case limit_for (get_user_tier s (user_id current_user)) feature_name of
           None \<Rightarrow> True
         | Some limit \<Rightarrow> usage_today s (user_id current_user) feature_name < limit)) \<and>
     (\<not> allowed \<longrightarrow>
        feature_usage s' = feature_usage s \<and>
        usage_calls s' =
          usage_calls s @ [UsageQuery (user_id current_user) feature_name (today s)])"
proof -
  from increment_and_check_returns[of "user_id current_user" feature_name amount s]
  obtain allowed remaining md s' where
    r: "increment_and_check (user_id current_user) feature_name amount s =
          Inr ((allowed, remaining, md), s')"
    and a: "allowed \<longleftrightarrow>
        (case limit_for (get_user_tier s (user_id current_user)) feature_name of
           None \<Rightarrow> True
         | Some limit \<Rightarrow> usage_today s (user_id current_user) feature_name < limit)"
    and w: "\<not> allowed \<longrightarrow>
        feature_usage s' = feature_usage s \<and>
        usage_calls s' =
          usage_calls s @ [UsageQuery (user_id current_user) feature_name (today s)]"
    by blast
  have "track_usage feature_name amount current_user s =
          Inr ((current_user, get_rate_limit_headers allowed remaining md), s')"
    by (simp add: track_usage_def r try_bind_def)
  with r a w show ?thesis by blast
qed

lemma str_int_examples:
  "str_int 0 = ''0''" "str_int 10 = ''10''" "str_int 3600 = ''3600''"
  by (simp_all add: str_int_def str_nat.simps)

text \<open>
  The same call evaluated in full, beside \<open>verify_usage_limit\<close>, which rejects the
  request with status 429 in that state.
\<close>

lemma track_usage_exhausted_example:
  "track_usage ''ask_questions'' 1 \<lparr>user_id = 1\<rparr> (usage_state 10) =
     Inr ((\<lparr>user_id = 1\<rparr>,
           [(''X-RateLimit-Limit'', ''10''), (''X-RateLimit-Remaining'', ''0''),
            (''X-RateLimit-Reset'', ''3600''), (''X-Tier-Level'', ''free''),
            (''X-Upgrade-Required'', ''true'')]),
          (usage_state 10)\<lparr>usage_calls := [UsageQuery 1 ''ask_questions'' 0]\<rparr>)"
proof -
  have h: "limit_for (get_user_tier (usage_state 10) 1) ''ask_questions'' = Some 10"
    by (simp only: usage_state_simps limit_free_ask)
  have d: "\<not> usage_today (usage_state 10) 1 ''ask_questions'' < 10"
    by (simp add: usage_state_simps del: One_nat_def)
  have c: "seconds_until_reset (usage_state 10) = 3600"
    by (simp add: usage_state_def empty_state_def)
  show ?thesis
    by (simp add: track_usage_def increment_and_check_denied[OF h d] try_bind_def
          get_rate_limit_headers_def str_int_examples str_bool_lower_def usage_state_simps c
          del: One_nat_def)
qed

lemma verify_usage_limit_exhausted_example:
  "verify_usage_limit ''ask_questions'' \<lparr>user_id = 1\<rparr> (usage_state 10) =
     Inl (HTTPException 429 ''Usage limit reached for ask_questions''
           [(''X-RateLimit-Limit'', ''10''), (''X-RateLimit-Remaining'', ''0''),
            (''X-RateLimit-Reset'', ''3600''), (''X-Tier-Level'', ''free''),
            (''X-Upgrade-Required'', ''true'')])"
proof -
  have h: "limit_for (get_user_tier (usage_state 10) 1) ''ask_questions'' = Some 10"
    by (simp only: usage_state_simps limit_free_ask)
  have c: "seconds_until_reset (usage_state 10) = 3600"
    by (simp add: usage_state_def empty_state_def)
  show ?thesis
    by (simp add: verify_usage_limit_def check_rate_limit_limited[OF h] try_bind_def
          get_rate_limit_headers_def str_int_examples str_bool_lower_def usage_state_simps c
          del: One_nat_def)
qed

text \<open>
  With the free quota of 10 questions used up, \<open>track_usage\<close> still returns the user and
  leaves the counters as they were.
\<close>

theorem track_usage_never_rejects_witness:
  "limit_for (get_user_tier (usage_state 10) 1) ''ask_questions'' = Some 10 \<and>
   usage_today (usage_state 10) 1 ''ask_questions'' = 10 \<and>
   (\<exists>hdrs s'. track_usage ''ask_questions'' 1 \<lparr>user_id = 1\<rparr> (usage_state 10) =
                 Inr ((\<lparr>user_id = 1\<rparr>, hdrs), s') \<and>
               feature_usage s' = feature_usage (usage_state 10) \<and>
               usage_calls s' = [UsageQuery 1 ''ask_questions'' 0])"
proof -
  have h: "limit_for (get_user_tier (usage_state 10) 1) ''ask_questions'' = Some 10"
    by (simp only: usage_state_simps limit_free_ask)
  have u: "usage_today (usage_state 10) 1 ''ask_questions'' = 10"
    by (simp only: usage_state_simps)
  from track_usage_never_rejects[of "\<lparr>user_id = 1\<rparr>" "''ask_questions''" 1 "usage_state 10"]
  obtain allowed remaining md s' where
    t: "track_usage ''ask_questions'' 1 \<lparr>user_id = 1\<rparr> (usage_state 10) =
          Inr ((\<lparr>user_id = 1\<rparr>, get_rate_limit_headers allowed remaining md), s')"
    and a: "allowed \<longleftrightarrow>
        (case limit_for (get_user_tier (usage_state 10) (user_id \<lparr>user_id = 1\<rparr>)) ''ask_questions'' of
           None \<Rightarrow> True
         | Some limit \<Rightarrow> usage_today (usage_state 10) (user_id \<lparr>user_id = 1\<rparr>) ''ask_questions'' < limit)"
    and w: "\<not> allowed \<longrightarrow>
        feature_usage s' = feature_usage (usage_state 10) \<and>
        usage_calls s' =
          usage_calls (usage_state 10) @
            [UsageQuery (user_id \<lparr>user_id = 1\<rparr>) ''ask_questions'' (today (usage_state 10))]"
    by blast
  from a h u have "\<not> allowed" by (simp del: One_nat_def)
  with w have "feature_usage s' = feature_usage (usage_state 10)"
    and "usage_calls s' = [UsageQuery 1 ''ask_questions'' 0]"
    by (simp_all add: usage_state_simps del: One_nat_def)
  with t h u show ?thesis by blast
qed

subsection \<open>Calls made one after the other\<close>

text \<open>
  Run sequentially from a counter that is not above the limit \<open>L\<close>, \<open>k\<close> tracked calls
  of amount 1 are allowed until the limit is reached and denied from then on, and the
  counter ends at the limit when \<open>k\<close> is large enough: from a fresh key, \<open>min(k, L)\<close>
  calls are allowed and the counter ends at \<open>min(k, L)\<close>. Nothing is said here about
  calls that overlap in time.
\<close>

lemma get_user_tier_usage_calls [simp]:
  "get_user_tier (s\<lparr>usage_calls := c\<rparr>) uid = get_user_tier s uid"
  by (simp add: get_user_tier_def get_user_subscription_def)

lemma increment_usage_frame:
  "get_user_tier (snd (increment_usage uid f a s)) uid' = get_user_tier s uid'"
  "today (snd (increment_usage uid f a s)) = today s"
  by (simp_all add: increment_usage_def query_usage_def Let_def get_user_tier_def
        get_user_subscription_def split: option.splits)

lemma track_calls_sequential:
  assumes "limit_for (get_user_tier s uid) f = Some L"
    and "usage_today s uid f \<le> L"
  shows "fst (track_calls k uid f s) = min k (nat (L - usage_today s uid f)) \<and>
         usage_today (snd (track_calls k uid f s)) uid f =
           usage_today s uid f + int (min k (nat (L - usage_today s uid f)))"
  using assms
proof (induction k arbitrary: s)
  case 0
  then show ?case by simp
next
  case (Suc k)
  show ?case
  proof (cases "usage_today s uid f < L")
    case True
    let ?s1 = "snd (increment_usage uid f (min 1 (L - usage_today s uid f))
                 (s\<lparr>usage_calls := usage_calls s @ [UsageQuery uid f (today s)]\<rparr>))"
    have m: "min 1 (L - usage_today s uid f) = 1" using True by simp
    have u1: "usage_today ?s1 uid f = usage_today s uid f + 1"
      by (simp add: usage_today_increment_usage m)
    have t1: "limit_for (get_user_tier ?s1 uid) f = Some L"
      using Suc.prems(1) by (simp add: increment_usage_frame)
    have le1: "usage_today ?s1 uid f \<le> L" using True u1 by simp
    from Suc.IH[OF t1 le1] u1 True show ?thesis
      by (simp add: increment_and_check_allowed[OF Suc.prems(1) True] split_beta) linarith+
  next
    case False
    let ?s1 = "s\<lparr>usage_calls := usage_calls s @ [UsageQuery uid f (today s)]\<rparr>"
    have t1: "limit_for (get_user_tier ?s1 uid) f = Some L"
      using Suc.prems(1) by simp
    have le1: "usage_today ?s1 uid f \<le> L" using Suc.prems(2) by simp
    from Suc.IH[OF t1 le1] False Suc.prems(2) show ?thesis
      by (simp add: increment_and_check_denied[OF Suc.prems(1) False] split_beta)
  qed
qed

lemma track_calls_eleven_example:
  "fst (track_calls 11 1 ''ask_questions'' (usage_state 0)) = 10 \<and>
   usage_today (snd (track_calls 11 1 ''ask_questions'' (usage_state 0))) 1 ''ask_questions''
     = 10"
proof -
  have h: "limit_for (get_user_tier (usage_state 0) 1) ''ask_questions'' = Some 10"
    by (simp only: usage_state_simps limit_free_ask)
  have l: "usage_today (usage_state 0) 1 ''ask_questions'' \<le> 10"
    by (simp add: usage_state_simps del: One_nat_def)
  from track_calls_sequential[OF h l, of 11] show ?thesis
    by (simp add: usage_state_simps del: One_nat_def)
qed

section \<open>Tier resolution and the access decisions\<close>

text \<open>
  The resolver returns \<open>free\<close> for a user without a subscription row and for a row whose
  status is not \<open>active\<close>, whatever tier the row names.
\<close>

lemma get_user_tier_inactive:
  assumes "case user_subscriptions s uid of None \<Rightarrow> True | Some sub \<Rightarrow> status sub \<noteq> ''active''"
  shows "get_user_tier s uid = ''free''"
  using assms
  by (simp add: get_user_tier_def get_user_subscription_def is_active_def split: option.splits)

lemma subscribed_state_simps:
  "user_subscriptions (subscribed_state tier st) 1 =
     Some \<lparr>subscription_tier = tier, status = st, cancel_at_period_end = False\<rparr>"
  "feature_usage (subscribed_state tier st) = Map.empty"
  "subscription_events (subscribed_state tier st) = []"
  "usage_calls (subscribed_state tier st) = []"
  "today (subscribed_state tier st) = 0"
  by (simp_all add: subscribed_state_def empty_state_def)

text \<open>
  C3. The specification says that no access decision grants a user whose subscription is not
  active more than the free tier. For user 1 with a row of tier \<open>pro\<close> and status
  \<open>past_due\<close>, the resolver returns \<open>free\<close> and \<open>check_feature_access\<close> denies the
  pro-only feature \<open>custom_pathways\<close>, but the dependency \<open>verify_subscription_tier\<close>
  with required tier \<open>pro\<close> lets the user through: it decides with
  \<open>User.is_tier_or_higher\<close>, which reads the tier of the row and not its status.
\<close>

theorem verify_subscription_tier_inactive:
  "get_user_tier (subscribed_state ''pro'' ''past_due'') 1 = ''free'' \<and>
   check_feature_access (subscribed_state ''pro'' ''past_due'') 1 ''custom_pathways'' = False \<and>
   verify_subscription_tier ''pro'' \<lparr>user_id = 1\<rparr> (subscribed_state ''pro'' ''past_due'')
     = Inr \<lparr>user_id = 1\<rparr>"
proof -
  have t: "get_user_tier (subscribed_state ''pro'' ''past_due'') 1 = ''free''"
    by (rule get_user_tier_inactive) (simp add: subscribed_state_simps del: One_nat_def)
  have f: "check_feature_access (subscribed_state ''pro'' ''past_due'') 1 ''custom_pathways'' = False"
    by (simp add: check_feature_access_def t TIER_FEATURES_def del: One_nat_def)
  have v: "verify_subscription_tier ''pro'' \<lparr>user_id = 1\<rparr> (subscribed_state ''pro'' ''past_due'')
     = Inr \<lparr>user_id = 1\<rparr>"
    by (simp add: verify_subscription_tier_def is_tier_or_higher_def user_subscription_tier_def
          subscribed_state_simps tier_levels_def dict_get_def del: One_nat_def)
  from t f v show ?thesis by simp
qed

text \<open>A user without a subscription row is rejected by the same dependency.\<close>

lemma verify_subscription_tier_free_example:
  "verify_subscription_tier ''pro'' \<lparr>user_id = 1\<rparr> empty_state =
     Inl (HTTPException 402 ''This feature requires a Pro subscription''
           [(''X-Current-Tier'', ''free''), (''X-Required-Tier'', ''pro''),
            (''X-Upgrade-Required'', ''true'')])"
  by (simp add: verify_subscription_tier_def is_tier_or_higher_def user_subscription_tier_def
        empty_state_def tier_levels_def tier_names_def dict_get_def get_user_tier_def
        get_user_subscription_def)

lemma enterprise_tier:
  "get_user_tier (subscribed_state ''enterprise'' ''active'') 1 = ''enterprise''"
  by (simp add: get_user_tier_def get_user_subscription_def is_active_def subscribed_state_simps
        del: One_nat_def)

text \<open>
  C4. The specification says that an active subscription with a tier that is not in the catalog
  is treated as free. For user 1 with an active row of tier \<open>enterprise\<close>, the loop of
  \<open>check_feature_access\<close> never meets the user's tier and collects the features of
  every tier, so the pro-only feature \<open>custom_pathways\<close> is granted (a free user is
  denied it); and \<open>check_usage_limit\<close> and \<open>check_rate_limit\<close> find no limit table and
  answer allowed with the sentinel 9999 and without reading the counter, where a free
  user has 10 questions.
\<close>

theorem unknown_tier_not_free:
  "get_user_tier (subscribed_state ''enterprise'' ''active'') 1 = ''enterprise'' \<and>
   check_feature_access (subscribed_state ''enterprise'' ''active'') 1 ''custom_pathways'' = True \<and>
   check_feature_access empty_state 1 ''custom_pathways'' = False \<and>
   check_usage_limit 1 ''ask_questions'' (subscribed_state ''enterprise'' ''active'') =
     Inr ((True, 9999), subscribed_state ''enterprise'' ''active'') \<and>
   outcome (check_rate_limit 1 ''ask_questions'' (subscribed_state ''enterprise'' ''active''))
     = Some (True, 9999) \<and>
   outcome (check_rate_limit 1 ''ask_questions'' empty_state) = Some (True, 10)"
proof -
  have a: "check_feature_access (subscribed_state ''enterprise'' ''active'') 1 ''custom_pathways'' = True"
    by (simp add: check_feature_access_def enterprise_tier TIER_FEATURES_def del: One_nat_def)
  have b: "check_feature_access empty_state 1 ''custom_pathways'' = False"
    by (simp add: check_feature_access_def empty_state_def get_user_tier_def
          get_user_subscription_def TIER_FEATURES_def)
  have n: "\<not> dict_in ''ask_questions'' (dict_get TIER_LIMITS ''enterprise'' [])"
    by (simp add: dict_in_def dict_get_def TIER_LIMITS_def)
  have c: "check_usage_limit 1 ''ask_questions'' (subscribed_state ''enterprise'' ''active'') =
     Inr ((True, 9999), subscribed_state ''enterprise'' ''active'')"
    using n by (simp add: check_usage_limit_def enterprise_tier Let_def del: One_nat_def)
  have d: "outcome (check_rate_limit 1 ''ask_questions'' (subscribed_state ''enterprise'' ''active''))
     = Some (True, 9999)"
    using n by (simp add: check_rate_limit_def enterprise_tier outcome_def Let_def del: One_nat_def)
  have h: "limit_for (get_user_tier empty_state 1) ''ask_questions'' = Some 10"
    by (simp only: empty_state_simps limit_free_ask)
  have e: "outcome (check_rate_limit 1 ''ask_questions'' empty_state) = Some (True, 10)"
    by (simp add: check_rate_limit_limited[OF h] outcome_def empty_state_simps del: One_nat_def)
  from enterprise_tier a b c d e show ?thesis by simp
qed

section \<open>Subscription lifecycle events\<close>

text \<open>\<open>create_subscription\<close> appends an event with no previous tier and the new tier.\<close>

lemma create_subscription_records_event:
  assumes "get_user_subscription s (create_user_id subscription_data) = None"
  shows "\<exists>subscription s'.
           create_subscription subscription_data s = Inr (subscription, s') \<and>
           subscription_tier subscription = create_subscription_tier subscription_data \<and>
           subscription_events s' = subscription_events s @
             [\<lparr>event_user_id = create_user_id subscription_data,
               event_type = ''subscription_created'', previous_tier = None,
               new_tier = Some (create_subscription_tier subscription_data)\<rparr>]"
  using assms
  by (simp add: create_subscription_def record_subscription_event_def Let_def)

text \<open>
  \<open>update_subscription\<close> keeps the tier it found before it writes the row, and the
  event it appends on a tier change carries that tier and the new one.
\<close>

lemma update_subscription_records_change:
  assumes "get_user_subscription s uid = Some subscription"
    and "update_subscription_tier subscription_data = Some t"
    and "t \<noteq> []" and "subscription_tier subscription \<noteq> t"
  shows "\<exists>subscription1 s'.
           update_subscription uid subscription_data s = Inr (subscription1, s') \<and>
           subscription_tier subscription1 = t \<and>
           subscription_events s' = subscription_events s @
             [\<lparr>event_user_id = uid, event_type = ''subscription_changed'',
               previous_tier = Some (subscription_tier subscription), new_tier = Some t\<rparr>]"
  using assms
  by (simp add: update_subscription_def record_subscription_event_def set_fields_def Let_def)

text \<open>
  C9. The specification says that an immediate cancellation appends an event whose
  \<open>previous_tier\<close> is the tier held before the change. \<open>cancel_subscription\<close> reads
  \<open>subscription.subscription_tier\<close> for the event after it has set it to \<open>free\<close>: for
  user 1 with an active \<open>pro\<close> subscription, the event it appends has previous tier
  \<open>free\<close> and new tier \<open>free\<close>.
\<close>

theorem cancel_immediate_event:
  "get_user_subscription (subscribed_state ''pro'' ''active'') 1 =
     Some \<lparr>subscription_tier = ''pro'', status = ''active'', cancel_at_period_end = False\<rparr> \<and>
   cancel_subscription 1 True (subscribed_state ''pro'' ''active'') =
     Inr (\<lparr>subscription_tier = ''free'', status = ''canceled'', cancel_at_period_end = False\<rparr>,
          (subscribed_state ''free'' ''canceled'')\<lparr>subscription_events :=
             [\<lparr>event_user_id = 1, event_type = ''subscription_canceled_immediate'',
               previous_tier = Some ''free'', new_tier = Some ''free''\<rparr>]\<rparr>)"
  by (simp add: cancel_subscription_def get_user_subscription_def record_subscription_event_def
        subscribed_state_def empty_state_def Let_def del: One_nat_def)

section \<open>The tier a feature requires\<close>

lemma required_tier_loop_None:
  "required_tier_loop cat f = None \<longleftrightarrow> (\<forall>(tier, features) \<in> set cat. f \<notin> set features)"
  by (induction cat f rule: required_tier_loop.induct) auto

lemma list_ex_required_tier_loop:
  "list_ex (\<lambda>(tier, features). f \<in> set features) cat \<longleftrightarrow> required_tier_loop cat f \<noteq> None"
  by (induction cat f rule: required_tier_loop.induct) auto

lemma collect_features_subset:
  "x \<in> set (collect_features cat user_tier) \<Longrightarrow> \<exists>(tier, features) \<in> set cat. x \<in> set features"
  by (induction cat user_tier rule: collect_features.induct) (auto split: if_splits)

lemma unknown_feature_no_access:
  assumes "required_tier f = None"
  shows "\<not> check_feature_access s uid f"
proof
  assume "check_feature_access s uid f"
  then have "f \<in> set (collect_features TIER_FEATURES (get_user_tier s uid))"
    by (simp add: check_feature_access_def)
  from collect_features_subset[OF this] assms show False
    by (auto simp: required_tier_def required_tier_loop_None)
qed

lemma required_tier_cascade:
  "required_tier f =
     (if f \<in> set (dict_get TIER_FEATURES ''free'' []) then Some ''free''
      else if f \<in> set (dict_get TIER_FEATURES ''premium'' []) then Some ''premium''
      else if f \<in> set (dict_get TIER_FEATURES ''pro'' []) then Some ''pro''
      else None)"
  by (simp add: required_tier_def TIER_FEATURES_def dict_get_def)

lemma required_tier_SomeD:
  assumes "required_tier f = Some t"
  shows "(t = ''free'' \<and> f \<in> set (dict_get TIER_FEATURES ''free'' [])) \<or>
         (t = ''premium'' \<and> f \<notin> set (dict_get TIER_FEATURES ''free'' []) \<and>
            f \<in> set (dict_get TIER_FEATURES ''premium'' [])) \<or>
         (t = ''pro'' \<and> f \<notin> set (dict_get TIER_FEATURES ''free'' []) \<and>
            f \<notin> set (dict_get TIER_FEATURES ''premium'' []) \<and>
            f \<in> set (dict_get TIER_FEATURES ''pro'' []))"
  using assms unfolding required_tier_cascade by (auto split: if_splits)

lemma required_tier_lowest_rank:
  assumes "required_tier f = Some t"
  shows "\<exists>r. map_of tier_levels t = Some r \<and> f \<in> set (available_features t) \<and>
             (\<forall>t' r'. map_of tier_levels t' = Some r' \<and> f \<in> set (available_features t')
                \<longrightarrow> r \<le> r')"
proof -
  have lv: "map_of tier_levels ''free'' = Some 0" "map_of tier_levels ''premium'' = Some 1"
    "map_of tier_levels ''pro'' = Some 2"
    by (simp_all add: tier_levels_def)
  from required_tier_SomeD[OF assms] show ?thesis
  proof (elim disjE conjE)
    assume "t = ''free''" "f \<in> set (dict_get TIER_FEATURES ''free'' [])"
    then show ?thesis
      using lv by (auto simp: available_features_simps dest: tier_levels_cases)
  next
    assume "t = ''premium''" "f \<notin> set (dict_get TIER_FEATURES ''free'' [])"
      "f \<in> set (dict_get TIER_FEATURES ''premium'' [])"
    then show ?thesis
      using lv by (auto simp: available_features_simps dest!: tier_levels_cases)
  next
    assume "t = ''pro''" "f \<notin> set (dict_get TIER_FEATURES ''free'' [])"
      "f \<notin> set (dict_get TIER_FEATURES ''premium'' [])"
      "f \<in> set (dict_get TIER_FEATURES ''pro'' [])"
    then show ?thesis
      using lv by (auto simp: available_features_simps dest!: tier_levels_cases)
  qed
qed

lemma py_or_required_tier:
  "required_tier f = Some t \<Longrightarrow> py_or (required_tier f) d = t"
  by (auto simp: py_or_def dest: required_tier_SomeD)

text \<open>
  C8 (as amended). For every feature name, the required-tier loop returns \<open>None\<close>
  exactly when the feature is in no tier's feature list, and otherwise the lowest-ranked
  tier whose cumulative feature list contains the feature; the route
  \<open>check_feature_access\<close> reports that tier, and \<open>verify_feature_access\<close> names it in
  the 402 it raises for a user without access. When the loop returns \<open>None\<close>, the route
  answers 404 (feature unknown), while the dependency \<open>verify_feature_access\<close>
  substitutes \<open>premium\<close> and raises the same 402 as for a locked feature.
\<close>

theorem required_tier_lowest:
  "(required_tier f = None \<longleftrightarrow>
      (\<forall>tier features. (tier, features) \<in> set TIER_FEATURES \<longrightarrow> f \<notin> set features)) \<and>
   (\<forall>t. required_tier f = Some t \<longrightarrow>
      (\<exists>r. map_of tier_levels t = Some r \<and> f \<in> set (available_features t) \<and>
           (\<forall>t' r'. map_of tier_levels t' = Some r' \<and> f \<in> set (available_features t')
              \<longrightarrow> r \<le> r')) \<and>
      (\<exists>resp. route_check_feature_access f u s = Inr resp \<and> resp_required_tier resp = t) \<and>
      (\<not> check_feature_access s (user_id u) f \<longrightarrow>
         verify_feature_access f u s =
           Inl (HTTPException 402 ''This feature requires a higher subscription tier''
                 [(''X-Current-Tier'', get_user_tier s (user_id u)),
                  (''X-Required-Tier'', t),
                  (''X-Feature-Name'', f),
                  (''X-Upgrade-Required'', ''true'')]))) \<and>
   (required_tier f = None \<longrightarrow>
      route_check_feature_access f u s =
        Inl (HTTPException 404 (''Feature '' @ [CHR 0x27] @ f @ [CHR 0x27] @ '' not found'') []) \<and>
      verify_feature_access f u s =
        Inl (HTTPException 402 ''This feature requires a higher subscription tier''
              [(''X-Current-Tier'', get_user_tier s (user_id u)),
               (''X-Required-Tier'', ''premium''),
               (''X-Feature-Name'', f),
               (''X-Upgrade-Required'', ''true'')]))"
proof (intro conjI allI impI)
  show "required_tier f = None \<longleftrightarrow>
      (\<forall>tier features. (tier, features) \<in> set TIER_FEATURES \<longrightarrow> f \<notin> set features)"
    by (auto simp: required_tier_def required_tier_loop_None)
next
  fix t assume "required_tier f = Some t"
  then show "\<exists>r. map_of tier_levels t = Some r \<and> f \<in> set (available_features t) \<and>
           (\<forall>t' r'. map_of tier_levels t' = Some r' \<and> f \<in> set (available_features t')
              \<longrightarrow> r \<le> r')"
    by (rule required_tier_lowest_rank)
next
  fix t assume t: "required_tier f = Some t"
  then have "list_ex (\<lambda>(tier, features). f \<in> set features) TIER_FEATURES"
    by (simp add: list_ex_required_tier_loop required_tier_def)
  then show "\<exists>resp. route_check_feature_access f u s = Inr resp \<and> resp_required_tier resp = t"
    using py_or_required_tier[OF t]
    by (simp add: route_check_feature_access_def Let_def)
next
  fix t assume t: "required_tier f = Some t" and "\<not> check_feature_access s (user_id u) f"
  then show "verify_feature_access f u s =
           Inl (HTTPException 402 ''This feature requires a higher subscription tier''
                 [(''X-Current-Tier'', get_user_tier s (user_id u)),
                  (''X-Required-Tier'', t),
                  (''X-Feature-Name'', f),
                  (''X-Upgrade-Required'', ''true'')])"
    using py_or_required_tier[OF t]
    by (simp add: verify_feature_access_def Let_def)
next
  assume n: "required_tier f = None"
  then have "\<not> list_ex (\<lambda>(tier, features). f \<in> set features) TIER_FEATURES"
    by (simp add: list_ex_required_tier_loop required_tier_def)
  then show "route_check_feature_access f u s =
        Inl (HTTPException 404 (''Feature '' @ [CHR 0x27] @ f @ [CHR 0x27] @ '' not found'') [])"
    by (simp add: route_check_feature_access_def Let_def)
next
  assume n: "required_tier f = None"
  from unknown_feature_no_access[OF n] show "verify_feature_access f u s =
        Inl (HTTPException 402 ''This feature requires a higher subscription tier''
              [(''X-Current-Tier'', get_user_tier s (user_id u)),
               (''X-Required-Tier'', ''premium''),
               (''X-Feature-Name'', f),
               (''X-Upgrade-Required'', ''true'')])"
    by (simp add: verify_feature_access_def Let_def n py_or_def)
qed

lemma required_tier_examples:
  "required_tier ''custom_pathways'' = Some ''pro''"
  "required_tier ''time_travel'' = None"
  "required_tier ''basic_ask'' = Some ''free''"
  by (simp_all add: required_tier_def TIER_FEATURES_def)

text \<open>
  C8 as stated fails in \<open>verify_feature_access\<close>: for the unknown feature
  \<open>time_travel\<close> the loop returns \<open>None\<close>, and the caller answers as it does for the
  locked premium feature \<open>advanced_ask\<close>: status 402 with required tier \<open>premium\<close>.
\<close>

theorem verify_feature_access_unknown_feature:
  "required_tier ''time_travel'' = None \<and>
   verify_feature_access ''time_travel'' \<lparr>user_id = 1\<rparr> empty_state =
     Inl (HTTPException 402 ''This feature requires a higher subscription tier''
           [(''X-Current-Tier'', ''free''), (''X-Required-Tier'', ''premium''),
            (''X-Feature-Name'', ''time_travel''), (''X-Upgrade-Required'', ''true'')]) \<and>
   required_tier ''advanced_ask'' = Some ''premium'' \<and>
   verify_feature_access ''advanced_ask'' \<lparr>user_id = 1\<rparr> empty_state =
     Inl (HTTPException 402 ''This feature requires a higher subscription tier''
           [(''X-Current-Tier'', ''free''), (''X-Required-Tier'', ''premium''),
            (''X-Feature-Name'', ''advanced_ask''), (''X-Upgrade-Required'', ''true'')])"
  by (simp add: verify_feature_access_def check_feature_access_def required_tier_def
        TIER_FEATURES_def py_or_def empty_state_simps Let_def del: One_nat_def)

text \<open>
  \<open>custom_pathways\<close> requires \<open>pro\<close>, and a free user is told so; \<open>time_travel\<close> is in
  no tier, and the route answers 404.
\<close>

theorem required_tier_lowest_witness:
  "required_tier ''custom_pathways'' = Some ''pro'' \<and>
   map_of tier_levels ''pro'' = Some 2 \<and>
   ''custom_pathways'' \<in> set (available_features ''pro'') \<and>
   check_feature_access empty_state 1 ''custom_pathways'' = False \<and>
   verify_feature_access ''custom_pathways'' \<lparr>user_id = 1\<rparr> empty_state =
     Inl (HTTPException 402 ''This feature requires a higher subscription tier''
           [(''X-Current-Tier'', ''free''), (''X-Required-Tier'', ''pro''),
            (''X-Feature-Name'', ''custom_pathways''), (''X-Upgrade-Required'', ''true'')]) \<and>
   required_tier ''time_travel'' = None \<and>
   route_check_feature_access ''time_travel'' \<lparr>user_id = 1\<rparr> empty_state =
     Inl (HTTPException 404 ''Feature 'time_travel' not found'' [])"
proof -
  have a: "required_tier ''custom_pathways'' = Some ''pro''"
    and b: "required_tier ''time_travel'' = None"
    by (simp_all add: required_tier_examples)
  have c: "check_feature_access empty_state 1 ''custom_pathways'' = False"
    by (simp add: check_feature_access_def empty_state_simps TIER_FEATURES_def del: One_nat_def)
  have l: "map_of tier_levels ''pro'' = Some 2"
    by (simp add: tier_levels_def)
  from required_tier_lowest[of "''custom_pathways''" "\<lparr>user_id = 1\<rparr>" empty_state] a c l
  have 1: "''custom_pathways'' \<in> set (available_features ''pro'')"
    and 2: "verify_feature_access ''custom_pathways'' \<lparr>user_id = 1\<rparr> empty_state =
     Inl (HTTPException 402 ''This feature requires a higher subscription tier''
           [(''X-Current-Tier'', ''free''), (''X-Required-Tier'', ''pro''),
            (''X-Feature-Name'', ''custom_pathways''), (''X-Upgrade-Required'', ''true'')])"
    by (simp_all add: empty_state_simps del: One_nat_def)
  from required_tier_lowest[of "''time_travel''" "\<lparr>user_id = 1\<rparr>" empty_state] b
  have 3: "route_check_feature_access ''time_travel'' \<lparr>user_id = 1\<rparr> empty_state =
     Inl (HTTPException 404 ''Feature 'time_travel' not found'' [])"
    by simp
  from a b c l 1 2 3 show ?thesis by simp
qed

end
